theory Spec2Isabelle
  imports Main "HOL-Library.Sublist" "HOL-Library.Word"
begin

section \<open>Rate limiter (http\_honeypot.py, class RateLimiter)\<close>

text \<open>
  A \<open>datetime\<close> is modelled by its number of microseconds since the epoch
  (the resolution of Python's \<open>datetime\<close>), and \<open>timedelta(seconds=s)\<close> by
  \<open>1000000 * s\<close> microseconds. \<open>datetime.now()\<close> is an input of every operation:
  the clock is read once at the start of each method.
\<close>

type_synonym datetime = int

definition timedelta_seconds :: "int \<Rightarrow> int" where
  "timedelta_seconds s = 1000000 * s"

record RateLimiter =
  max_requests :: int
  window_seconds :: int
  requests :: "string \<rightharpoonup> datetime list"

text \<open>\<open>RateLimiter.__init__\<close>: the dictionary starts empty.\<close>

definition RateLimiter_init :: "int \<Rightarrow> int \<Rightarrow> RateLimiter" where
  "RateLimiter_init m w = \<lparr>max_requests = m, window_seconds = w, requests = Map.empty\<rparr>"

text \<open>
  \<open>self.requests\<close> is a \<open>defaultdict(list)\<close>: reading an absent key yields the empty
  list.
\<close>

definition window :: "RateLimiter \<Rightarrow> string \<Rightarrow> datetime list" where
  "window self ip = (case requests self ip of None \<Rightarrow> [] | Some ts \<Rightarrow> ts)"

text \<open>
  \<open>is_rate_limited\<close>: the comprehension keeps the entries with \<open>req_time > cutoff\<close> and
  stores them back; the current time is appended only below the limit.
\<close>

definition is_rate_limited :: "RateLimiter \<Rightarrow> string \<Rightarrow> datetime \<Rightarrow> bool \<times> RateLimiter" where
  "is_rate_limited self ip now =
     (let cutoff = now - timedelta_seconds (window_seconds self);
          kept = filter (\<lambda>req_time. req_time > cutoff) (window self ip);
          self1 = self\<lparr>requests := (requests self)(ip \<mapsto> kept)\<rparr>
      in if int (length kept) \<ge> max_requests self1 then (True, self1)
         else (False, self1\<lparr>requests := (requests self1)(ip \<mapsto> kept @ [now])\<rparr>))"

definition get_request_count :: "RateLimiter \<Rightarrow> string \<Rightarrow> datetime \<Rightarrow> int \<times> RateLimiter" where
  "get_request_count self ip now =
     (let cutoff = now - timedelta_seconds (window_seconds self);
          kept = filter (\<lambda>req_time. req_time > cutoff) (window self ip);
          self1 = self\<lparr>requests := (requests self)(ip \<mapsto> kept)\<rparr>
      in (int (length kept), self1))"

text \<open>The dictionary returned by \<open>get_stats\<close>, one field per key.\<close>

record stats =
  stats_request_count :: int
  stats_limit :: int
  stats_window_seconds :: int
  stats_is_rate_limited :: bool

definition get_stats :: "RateLimiter \<Rightarrow> string \<Rightarrow> datetime \<Rightarrow> stats \<times> RateLimiter" where
  "get_stats self ip now =
     (let (count, self1) = get_request_count self ip now
      in (\<lparr>stats_request_count = count,
           stats_limit = max_requests self1,
           stats_window_seconds = window_seconds self1,
           stats_is_rate_limited = (count \<ge> max_requests self1)\<rparr>, self1))"

text \<open>Successive calls of one identity, each at its own clock reading.\<close>

fun attempts :: "RateLimiter \<Rightarrow> string \<Rightarrow> datetime list \<Rightarrow> bool list \<times> RateLimiter" where
  "attempts self ip [] = ([], self)"
| "attempts self ip (now # nows) =
     (let (limited, self1) = is_rate_limited self ip now;
          (rest, self2) = attempts self1 ip nows
      in (limited # rest, self2))"

fun get_stats_n :: "nat \<Rightarrow> RateLimiter \<Rightarrow> string \<Rightarrow> datetime \<Rightarrow> stats list \<times> RateLimiter" where
  "get_stats_n 0 self ip now = ([], self)"
| "get_stats_n (Suc n) self ip now =
     (let (s, self1) = get_stats self ip now;
          (rest, self2) = get_stats_n n self1 ip now
      in (s # rest, self2))"

text \<open>The entries of a window that are live at \<open>now\<close>: those the comprehension keeps.\<close>

definition live :: "RateLimiter \<Rightarrow> datetime \<Rightarrow> datetime list \<Rightarrow> datetime list" where
  "live self now ts = filter (\<lambda>t. now - timedelta_seconds (window_seconds self) < t) ts"

section \<open>Python strings\<close>

text \<open>
  A Python \<open>str\<close> is a sequence of Unicode code points, modelled as a list of
  naturals. \<open>lit\<close> embeds an ASCII literal of the source.
\<close>

type_synonym str = "nat list"

definition lit :: "string \<Rightarrow> str" where
  "lit s = map of_char s"

text \<open>
  \<open>str.isspace\<close> of one character, as \<open>strip()\<close> and \<open>split()\<close> use it: the
  ASCII blanks and separators, and the Unicode spaces.
\<close>

definition isspace :: "nat \<Rightarrow> bool" where
  "isspace c \<longleftrightarrow>
     (0x09 \<le> c \<and> c \<le> 0x0D) \<or> (0x1C \<le> c \<and> c \<le> 0x20) \<or> c = 0x85 \<or> c = 0xA0 \<or>
     c = 0x1680 \<or> (0x2000 \<le> c \<and> c \<le> 0x200A) \<or> c = 0x2028 \<or> c = 0x2029 \<or>
     c = 0x202F \<or> c = 0x205F \<or> c = 0x3000"

text \<open>\<open>s.strip()\<close>: leading and trailing whitespace removed.\<close>

definition strip :: "str \<Rightarrow> str" where
  "strip s = rev (dropWhile isspace (rev (dropWhile isspace s)))"

text \<open>\<open>s.rstrip(chars)\<close>: trailing characters of \<open>chars\<close> removed.\<close>

definition rstrip :: "str \<Rightarrow> str \<Rightarrow> str" where
  "rstrip chars s = rev (dropWhile (\<lambda>c. c \<in> set chars) (rev s))"

text \<open>
  \<open>s.split()\<close>: the maximal runs of non-whitespace characters, in order. \<open>cur\<close> is
  the run being read.
\<close>

fun split_from :: "str \<Rightarrow> str \<Rightarrow> str list" where
  "split_from cur [] = (if cur = [] then [] else [cur])"
| "split_from cur (c # cs) =
     (if isspace c then (if cur = [] then split_from [] cs else cur # split_from [] cs)
      else split_from (cur @ [c]) cs)"

definition split :: "str \<Rightarrow> str list" where
  "split s = split_from [] s"

text \<open>\<open>s.startswith(p)\<close>.\<close>

definition startswith :: "str \<Rightarrow> str \<Rightarrow> bool" where
  "startswith s p = prefix p s"

text \<open>\<open>sep.join(xs)\<close>.\<close>

fun join :: "str \<Rightarrow> str list \<Rightarrow> str" where
  "join sep [] = []"
| "join sep [x] = x"
| "join sep (x # y # ys) = x @ sep @ join sep (y # ys)"

text \<open>
  \<open>s.replace(old, new)\<close>: the occurrences of \<open>old\<close> are found from the left and do
  not overlap; an empty \<open>old\<close> matches before every character and at the end.
\<close>

function replace :: "str \<Rightarrow> str \<Rightarrow> str \<Rightarrow> str" where
  "replace old new [] = (if old = [] then new else [])"
| "replace old new (c # cs) =
     (if old = [] then new @ c # replace old new cs
      else if prefix old (c # cs) then new @ replace old new (drop (length old) (c # cs))
      else c # replace old new cs)"
  by pat_completeness auto
termination
  by (relation "measure (\<lambda>(old, new, s). length s)") auto

section \<open>The fake shell (ssh\_honeypot.py, class FakeShell)\<close>

record FakeShell =
  username :: str
  hostname :: str
  cwd :: str
  filesystem :: "str \<rightharpoonup> str list"
  files :: "str \<rightharpoonup> str"

text \<open>
  \<open>FakeShell.__init__\<close>. The two dictionaries are built in the order of the literal's
  entries; a later entry with an equal key would replace an earlier one.
\<close>

definition FakeShell_init :: "str \<Rightarrow> FakeShell" where
  "FakeShell_init user =
     \<lparr>username = user,
      hostname = lit ''ubuntu-server'',
      cwd = lit ''/home/'' @ user,
      filesystem = Map.empty
        (lit ''/'' \<mapsto> [lit ''bin'', lit ''etc'', lit ''home'', lit ''var'', lit ''usr'', lit ''tmp''],
         lit ''/home'' \<mapsto> [user, lit ''admin'', lit ''user''],
         lit ''/home/'' @ user \<mapsto>
           [lit ''documents'', lit ''downloads'', lit ''.bash_history'', lit ''.ssh''],
         lit ''/home/'' @ user @ lit ''/documents'' \<mapsto> [lit ''passwords.txt'', lit ''notes.txt''],
         lit ''/etc'' \<mapsto> [lit ''passwd'', lit ''shadow'', lit ''hosts'', lit ''ssh''],
         lit ''/var'' \<mapsto> [lit ''log'', lit ''www'']),
      files = Map.empty
        (lit ''/etc/passwd'' \<mapsto>
           lit ''root:x:0:0:root:/root:/bin/bash\<newline>ubuntu:x:1000:1000::/home/ubuntu:/bin/bash\<newline>'',
         lit ''/etc/hosts'' \<mapsto> lit ''127.0.0.1 localhost\<newline>127.0.1.1 ubuntu-server\<newline>'',
         lit ''/home/'' @ user @ lit ''/.bash_history'' \<mapsto>
           lit ''ls -la\<newline>cd documents\<newline>cat passwords.txt\<newline>exit\<newline>'',
         lit ''/home/'' @ user @ lit ''/documents/passwords.txt'' \<mapsto>
           lit ''mysql_password: notreal123\<newline>ssh_key_pass: fake_password\<newline>'')\<rparr>"

definition get_prompt :: "FakeShell \<Rightarrow> str" where
  "get_prompt self = username self @ lit ''@'' @ hostname self @ lit '':'' @ cwd self @ lit ''$ ''"

text \<open>
  \<open>_cmd_ls\<close>. An operand is read only from \<open>args[0]\<close>, and only when it does not start
  with \<open>-\<close>.
\<close>

definition cmd_ls :: "FakeShell \<Rightarrow> str list \<Rightarrow> str" where
  "cmd_ls self args =
     (let path0 = (case args of
                     [] \<Rightarrow> cwd self
                   | a # _ \<Rightarrow>
                       if \<not> startswith a (lit ''-'')
                       then (if startswith a (lit ''/'') then a else cwd self @ lit ''/'' @ a)
                       else cwd self);
          path1 = rstrip (lit ''/'') path0;
          path = (if path1 = [] then lit ''/'' else path1)
      in case filesystem self path of
           Some names \<Rightarrow> join (lit ''  '') names
         | None \<Rightarrow> lit ''ls: cannot access '' @ [39] @ path @ [39] @
                    lit '': No such file or directory'')"

definition cmd_cat :: "FakeShell \<Rightarrow> str list \<Rightarrow> str" where
  "cmd_cat self args =
     (case args of
        [] \<Rightarrow> lit ''cat: missing file operand''
      | a # _ \<Rightarrow>
          (let filepath = (if startswith a (lit ''/'') then a else cwd self @ lit ''/'' @ a)
           in case files self filepath of
                Some content \<Rightarrow> content
              | None \<Rightarrow> lit ''cat: '' @ a @ lit '': No such file or directory''))"

definition cmd_uname :: "FakeShell \<Rightarrow> str list \<Rightarrow> str" where
  "cmd_uname self args =
     (if lit ''-a'' \<in> set args
      then lit ''Linux ubuntu-server 5.15.0-56-generic #62-Ubuntu SMP x86_64 GNU/Linux''
      else lit ''Linux'')"

text \<open>\<open>_cmd_cd\<close> returns its message and the shell with \<open>cwd\<close> possibly reassigned.\<close>

definition cmd_cd :: "FakeShell \<Rightarrow> str list \<Rightarrow> str \<times> FakeShell" where
  "cmd_cd self args =
     (case args of
        [] \<Rightarrow> ([], self\<lparr>cwd := lit ''/home/'' @ username self\<rparr>)
      | new_path # _ \<Rightarrow>
          (let target = (if startswith new_path (lit ''/'') then new_path
                         else replace (lit ''//'') (lit ''/'') (cwd self @ lit ''/'' @ new_path))
           in if target \<in> dom (filesystem self) \<or> startswith target (lit ''/home/'')
              then ([], self\<lparr>cwd := target\<rparr>)
              else (lit ''bash: cd: '' @ new_path @ lit '': No such file or directory'', self)))"

text \<open>
  Exceptions of the session code: a failed channel operation, and the \<open>IndexError\<close>
  of \<open>parts[0]\<close> on an empty list.
\<close>

datatype exn = SocketError | IndexError

text \<open>
  \<open>execute_command\<close>. The result \<open>None\<close> is Python's \<open>None\<close>, the signal to close the
  session.
\<close>

definition execute_command :: "FakeShell \<Rightarrow> str \<Rightarrow> exn + (str option \<times> FakeShell)" where
  "execute_command self cmd0 =
     (let cmd = strip cmd0
      in if cmd = [] then Inr (Some [], self)
         else case split cmd of
                [] \<Rightarrow> Inl IndexError
              | command # args \<Rightarrow>
                  if command = lit ''ls'' then Inr (Some (cmd_ls self args), self)
                  else if command = lit ''pwd'' then Inr (Some (cwd self), self)
                  else if command = lit ''whoami'' then Inr (Some (username self), self)
                  else if command = lit ''cat'' then Inr (Some (cmd_cat self args), self)
                  else if command = lit ''uname'' then Inr (Some (cmd_uname self args), self)
                  else if command = lit ''cd'' then
                    (let (out, self1) = cmd_cd self args in Inr (Some out, self1))
                  else if command = lit ''help'' then
                    Inr (Some (lit ''Available commands: ls, pwd, whoami, cat, uname, cd, exit''), self)
                  else if command = lit ''exit'' then Inr (None, self)
                  else Inr (Some (lit ''-bash: '' @ command @ lit '': command not found''), self))"

section \<open>The interactive session (ssh\_honeypot.py, handle\_client)\<close>

subsection \<open>Decoding the received bytes\<close>

text \<open>
  \<open>bytes.decode('utf-8', errors='ignore')\<close>. A well-formed sequence yields its code
  point. At an ill-formed one the decoder reports the bytes read so far as an error (one
  byte for an invalid start byte, the lead and the continuation bytes accepted before the
  offending one otherwise, everything up to the end of the data for a truncated
  sequence), and the \<open>ignore\<close> handler resumes after them, yielding nothing.
\<close>

type_synonym byte = "8 word"

definition is_continuation :: "byte \<Rightarrow> bool" where
  "is_continuation b \<longleftrightarrow> 0x80 \<le> b \<and> b \<le> 0xBF"

fun utf8_decode_ignore :: "byte list \<Rightarrow> str" where
  "utf8_decode_ignore [] = []"
| "utf8_decode_ignore (b # bs) =
     (if b < 0x80 then unat b # utf8_decode_ignore bs
      else if b < 0xC2 then utf8_decode_ignore bs
      else if b < 0xE0 then
        (case bs of
           [] \<Rightarrow> []
         | b2 # r2 \<Rightarrow>
             if is_continuation b2
             then ((unat b - 0xC0) * 64 + (unat b2 - 0x80)) # utf8_decode_ignore r2
             else utf8_decode_ignore bs)
      else if b < 0xF0 then
        (case bs of
           [] \<Rightarrow> []
         | b2 # r2 \<Rightarrow>
             if \<not> is_continuation b2 \<or> (if b2 < 0xA0 then b = 0xE0 else b = 0xED)
             then utf8_decode_ignore bs
             else (case r2 of
                     [] \<Rightarrow> []
                   | b3 # r3 \<Rightarrow>
                       if is_continuation b3
                       then ((unat b - 0xE0) * 4096 + (unat b2 - 0x80) * 64 + (unat b3 - 0x80)) #
                            utf8_decode_ignore r3
                       else utf8_decode_ignore r2))
      else if b < 0xF5 then
        (case bs of
           [] \<Rightarrow> []
         | b2 # r2 \<Rightarrow>
             if \<not> is_continuation b2 \<or> (if b2 < 0x90 then b = 0xF0 else b = 0xF4)
             then utf8_decode_ignore bs
             else (case r2 of
                     [] \<Rightarrow> []
                   | b3 # r3 \<Rightarrow>
                       if \<not> is_continuation b3 then utf8_decode_ignore r2
                       else (case r3 of
                               [] \<Rightarrow> []
                             | b4 # r4 \<Rightarrow>
                                 if is_continuation b4
                                 then ((unat b - 0xF0) * 262144 + (unat b2 - 0x80) * 4096 +
                                       (unat b3 - 0x80) * 64 + (unat b4 - 0x80)) #
                                      utf8_decode_ignore r4
                                 else utf8_decode_ignore r3)))
      else utf8_decode_ignore bs)"

subsection \<open>The channel\<close>

text \<open>
  The channel is the transport library's object; the model keeps what the session code
  observes of it. \<open>sent\<close> lists the arguments of the successful \<open>send\<close> calls.
  \<open>sends_left\<close> is the environment's choice of when the transport fails: \<open>Some n\<close> lets
  \<open>n\<close> more sends succeed, after which \<open>send\<close> raises; \<open>None\<close> never fails.
  \<open>close()\<close> makes \<open>channel.active\<close> false, which the loop relies on to end after
  \<open>exit\<close>.
\<close>

record channel =
  sent :: "str list"
  sends_left :: "nat option"
  active :: bool

definition send :: "channel \<Rightarrow> str \<Rightarrow> exn + channel" where
  "send ch s =
     (case sends_left ch of
        None \<Rightarrow> Inr (ch\<lparr>sent := sent ch @ [s]\<rparr>)
      | Some 0 \<Rightarrow> Inl SocketError
      | Some (Suc n) \<Rightarrow> Inr (ch\<lparr>sent := sent ch @ [s], sends_left := Some n\<rparr>))"

definition close :: "channel \<Rightarrow> channel" where
  "close ch = ch\<lparr>active := False\<rparr>"

subsection \<open>The line editor\<close>

text \<open>
  The local variables of \<open>handle_client\<close> during the loop. An exception carries the
  state at the moment it is raised.
\<close>

record session =
  shell :: FakeShell
  chan :: channel
  commands :: "str list"
  buffer :: str

definition session_send :: "session \<Rightarrow> str \<Rightarrow> (exn \<times> session) + session" where
  "session_send s text =
     (case send (chan s) text of
        Inl e \<Rightarrow> Inl (e, s)
      | Inr ch \<Rightarrow> Inr (s\<lparr>chan := ch\<rparr>))"

text \<open>
  The body of \<open>for char in data\<close>. The flag of the result is \<open>True\<close> when the body
  ends in \<open>break\<close>.
\<close>

definition process_char :: "session \<Rightarrow> nat \<Rightarrow> (exn \<times> session) + (bool \<times> session)" where
  "process_char s char =
     (if char = 13 \<or> char = 10 then
        (if strip (buffer s) \<noteq> [] then
           (case execute_command (shell s) (buffer s) of
              Inl e \<Rightarrow> Inl (e, s)
            | Inr (result, shell1) \<Rightarrow>
                (let s1 = s\<lparr>shell := shell1, commands := commands s @ [strip (buffer s)]\<rparr>
                 in case result of
                      None \<Rightarrow>
                        (case session_send s1 ([13, 10] @ lit ''Logout'' @ [13, 10]) of
                           Inl x \<Rightarrow> Inl x
                         | Inr s2 \<Rightarrow> Inr (True, s2\<lparr>chan := close (chan s2)\<rparr>))
                    | Some out \<Rightarrow>
                        (case (if out \<noteq> [] then session_send s1 ([13, 10] @ out @ [13, 10])
                               else Inr s1) of
                           Inl x \<Rightarrow> Inl x
                         | Inr s2 \<Rightarrow>
                             (case session_send s2 (get_prompt (shell s2)) of
                                Inl x \<Rightarrow> Inl x
                              | Inr s3 \<Rightarrow> Inr (False, s3\<lparr>buffer := []\<rparr>)))))
         else
           (case session_send s (get_prompt (shell s)) of
              Inl x \<Rightarrow> Inl x
            | Inr s1 \<Rightarrow> Inr (False, s1)))
      else if char = 0x7F then
        (if buffer s \<noteq> [] then
           (case session_send (s\<lparr>buffer := butlast (buffer s)\<rparr>) (lit [CHR 0x08, CHR '' '', CHR 0x08]) of
              Inl x \<Rightarrow> Inl x
            | Inr s1 \<Rightarrow> Inr (False, s1))
         else Inr (False, s))
      else if char = 0x03 then
        (case session_send s (lit ''^C'' @ [13, 10]) of
           Inl x \<Rightarrow> Inl x
         | Inr s1 \<Rightarrow>
             (case session_send s1 (get_prompt (shell s1)) of
                Inl x \<Rightarrow> Inl x
              | Inr s2 \<Rightarrow> Inr (False, s2\<lparr>buffer := []\<rparr>)))
      else
        (case session_send (s\<lparr>buffer := buffer s @ [char]\<rparr>) [char] of
           Inl x \<Rightarrow> Inl x
         | Inr s1 \<Rightarrow> Inr (False, s1)))"

text \<open>\<open>for char in data\<close>: the characters in order, until a \<open>break\<close> or an exception.\<close>

fun process_data :: "session \<Rightarrow> str \<Rightarrow> (exn \<times> session) + session" where
  "process_data s [] = Inr s"
| "process_data s (char # data) =
     (case process_char s char of
        Inl x \<Rightarrow> Inl x
      | Inr (brk, s1) \<Rightarrow> if brk then Inr s1 else process_data s1 data)"

subsection \<open>The loop and the session record\<close>

text \<open>
  What one turn of \<open>while True\<close> observes of the outside: whether \<open>recv_ready()\<close> holds
  and then the bytes \<open>recv(1024)\<close> returns, and whether the peer still holds the channel
  open when \<open>channel.active\<close> is read. The list of observations bounds the run: when it
  is used up the loop is still running.
\<close>

record poll =
  recv :: "byte list option"
  peer_active :: bool

datatype outcome = Closed session | Raised exn session | Pending session

fun interaction_loop :: "poll list \<Rightarrow> session \<Rightarrow> outcome" where
  "interaction_loop [] s = Pending s"
| "interaction_loop (p # ps) s =
     (case (case recv p of
              None \<Rightarrow> Inr s
            | Some bytes \<Rightarrow> process_data s (utf8_decode_ignore bytes)) of
        Inl (e, s1) \<Rightarrow> Raised e s1
      | Inr s1 \<Rightarrow>
          if \<not> (active (chan s1) \<and> peer_active p) then Closed s1
          else interaction_loop ps s1)"

text \<open>
  The record \<open>SessionLogger.log_session\<close> appends to the log file; its timestamp and
  duration, read from the clock, are left out.
\<close>

record session_record =
  record_ip :: string
  record_username :: str
  record_commands :: "str list"

text \<open>
  \<open>handle_client\<close> from the welcome banner on: the records it logs, and how the loop
  ended. \<open>log_session\<close> is reached only when the loop is left by \<open>break\<close>; the
  \<open>except\<close> clause logs no session record.
\<close>

definition handle_client :: "channel \<Rightarrow> string \<Rightarrow> str \<Rightarrow> poll list \<Rightarrow> session_record list \<times> outcome" where
  "handle_client channel0 ip user polls =
     (let s0 = \<lparr>shell = FakeShell_init user, chan = channel0, commands = [], buffer = []\<rparr>
      in case session_send s0 (lit ''Welcome to Ubuntu 22.04.1 LTS'' @ [13, 10, 13, 10]) of
           Inl (e, s) \<Rightarrow> ([], Raised e s)
         | Inr s1 \<Rightarrow>
             (case session_send s1 (get_prompt (shell s1)) of
                Inl (e, s) \<Rightarrow> ([], Raised e s)
              | Inr s2 \<Rightarrow>
                  (case interaction_loop polls s2 of
                     Closed s \<Rightarrow>
                       ([\<lparr>record_ip = ip, record_username = user, record_commands = commands s\<rparr>],
                        Closed s)
                   | Raised e s \<Rightarrow> ([], Raised e s)
                   | Pending s \<Rightarrow> ([], Pending s))))"

section \<open>Attack payload detection (http\_honeypot.py, class AttackDetector)\<close>

subsection \<open>The patterns and their matching\<close>

text \<open>
  The patterns of the source are regular expressions of Python's \<open>re\<close>, searched with
  \<open>re.IGNORECASE\<close>. They are written here as syntax trees over the constructs they
  use: literal characters, \<open>.\<close>, \<open>\s\<close>, \<open>\b\<close>, character sets and their negation,
  sequence, alternation and repetition. A capture group is its body, and a lazy
  repetition is a repetition: only whether a match exists is asked. Character classes
  and case folding are those of ASCII; a code point from 128 on is compared as it is and
  is no word character (\<open>\s\<close> is \<open>isspace\<close> in full).
\<close>

datatype regex =
  Eps
  | Chr nat
  | AnyChar
  | Space
  | WordBoundary
  | OneOf "nat list"
  | NoneOf "nat list"
  | Seq regex regex
  | Alt regex regex
  | Star regex

definition lower_char :: "nat \<Rightarrow> nat" where
  "lower_char c = (if 65 \<le> c \<and> c \<le> 90 then c + 32 else c)"

text \<open>\<open>text.lower()\<close>.\<close>

definition lower :: "str \<Rightarrow> str" where
  "lower s = map lower_char s"

definition is_word :: "nat \<Rightarrow> bool" where
  "is_word c \<longleftrightarrow>
     (48 \<le> c \<and> c \<le> 57) \<or> (65 \<le> c \<and> c \<le> 90) \<or> (97 \<le> c \<and> c \<le> 122) \<or> c = 95"

text \<open>
  A position in the searched text: the character before it, if any, and the text from it
  on.
\<close>

type_synonym cursor = "nat option \<times> str"

definition at_boundary :: "cursor \<Rightarrow> bool" where
  "at_boundary cur =
     ((case fst cur of None \<Rightarrow> False | Some c \<Rightarrow> is_word c) \<noteq>
      (case snd cur of [] \<Rightarrow> False | c # _ \<Rightarrow> is_word c))"

text \<open>One character satisfying \<open>ok\<close> is read.\<close>

definition read :: "(nat \<Rightarrow> bool) \<Rightarrow> cursor \<Rightarrow> cursor list" where
  "read ok cur = (case snd cur of [] \<Rightarrow> [] | c # cs \<Rightarrow> if ok c then [(Some c, cs)] else [])"

text \<open>
  The positions reached from \<open>cs\<close> by at most \<open>n\<close> rounds of \<open>f\<close>. A round that
  reaches a new position has read a character, so as many rounds as the text is long
  reach every position a repetition can.
\<close>

fun rounds :: "nat \<Rightarrow> (cursor \<Rightarrow> cursor list) \<Rightarrow> cursor list \<Rightarrow> cursor list" where
  "rounds 0 f cs = cs"
| "rounds (Suc n) f cs = cs @ rounds n f (remdups (concat (map f cs)))"

text \<open>The positions at which a match of the pattern starting at the cursor can end.\<close>

primrec match :: "regex \<Rightarrow> cursor \<Rightarrow> cursor list" where
  "match Eps = (\<lambda>cur. [cur])"
| "match (Chr c) = read (\<lambda>x. lower_char x = lower_char c)"
| "match AnyChar = read (\<lambda>x. x \<noteq> 10)"
| "match Space = read isspace"
| "match WordBoundary = (\<lambda>cur. if at_boundary cur then [cur] else [])"
| "match (OneOf cs) = read (\<lambda>x. lower_char x \<in> set (map lower_char cs))"
| "match (NoneOf cs) = read (\<lambda>x. lower_char x \<notin> set (map lower_char cs))"
| "match (Seq r1 r2) = (\<lambda>cur. concat (map (match r2) (match r1 cur)))"
| "match (Alt r1 r2) = (\<lambda>cur. match r1 cur @ match r2 cur)"
| "match (Star r) = (\<lambda>cur. rounds (length (snd cur)) (match r) [cur])"

text \<open>Every position of a text, the end included.\<close>

fun cursors :: "nat option \<Rightarrow> str \<Rightarrow> cursor list" where
  "cursors prev [] = [(prev, [])]"
| "cursors prev (c # cs) = (prev, c # cs) # cursors (Some c) cs"

text \<open>\<open>re.search(pattern, text, re.IGNORECASE)\<close> finds a match.\<close>

definition search :: "regex \<Rightarrow> str \<Rightarrow> bool" where
  "search pattern text = list_ex (\<lambda>cur. match pattern cur \<noteq> []) (cursors None text)"

text \<open>Shorthands for writing the patterns.\<close>

fun lits :: "string \<Rightarrow> regex" where
  "lits [] = Eps"
| "lits [c] = Chr (of_char c)"
| "lits (c # cs) = Seq (Chr (of_char c)) (lits cs)"

fun seq :: "regex list \<Rightarrow> regex" where
  "seq [] = Eps"
| "seq [r] = r"
| "seq (r # rs) = Seq r (seq rs)"

fun alts :: "regex list \<Rightarrow> regex" where
  "alts [] = NoneOf []"
| "alts [r] = r"
| "alts (r # rs) = Alt r (alts rs)"

definition Plus :: "regex \<Rightarrow> regex" where
  "Plus r = Seq r (Star r)"

definition Opt :: "regex \<Rightarrow> regex" where
  "Opt r = Alt r Eps"

text \<open>The class of the single and the double quote, and the characters up to a \<open>></\<close>.\<close>

definition quote :: regex where
  "quote = OneOf [39, 34]"

definition attrs :: regex where
  "attrs = Star (NoneOf (lit ''>''))"

subsection \<open>The rule table\<close>

definition SQL_PATTERNS :: "regex list" where
  "SQL_PATTERNS =
    [seq [WordBoundary, lits ''union'', WordBoundary, Star AnyChar, WordBoundary, lits ''select'', WordBoundary],
     seq [WordBoundary, lits ''or'', WordBoundary, Plus Space, Opt quote, lits ''1'', Opt quote,
          Star Space, lits ''='', Star Space, Opt quote, lits ''1''],
     seq [WordBoundary, lits ''or'', WordBoundary, Plus Space, Opt quote, lits ''true'', Opt quote],
     seq [lits '';'', Star AnyChar, lits ''drop'', Plus Space, lits ''table''],
     seq [lits '';'', Star AnyChar, lits ''delete'', Plus Space, lits ''from''],
     seq [lits '';'', Star AnyChar, lits ''insert'', Plus Space, lits ''into''],
     seq [lits '';'', Star AnyChar, lits ''update'', Plus Space, Star AnyChar, lits ''set''],
     seq [alts [Chr 39, Chr 34], Star Space, alts [lits ''or'', lits ''and''], Star Space,
          alts [Chr 39, Chr 34, lits ''1'', lits ''true'']],
     seq [lits ''exec'', Star Space, lits ''(''],
     seq [lits ''execute'', Plus Space, lits ''immediate''],
     seq [lits ''benchmark'', Star Space, lits ''(''],
     seq [lits ''sleep'', Star Space, lits ''(''],
     seq [lits ''waitfor'', Plus Space, lits ''delay''],
     alts [lits ''--'', lits ''#'', lits ''/*''],
     seq [lits ''char'', Star Space, lits ''(''],
     seq [lits ''concat'', Star Space, lits ''(''],
     seq [lits ''0x'', Plus (OneOf (lit ''0123456789abcdef''))]]"

definition XSS_PATTERNS :: "regex list" where
  "XSS_PATTERNS =
    [seq [lits ''<script'', attrs, lits ''>'', Star AnyChar, lits ''</script>''],
     seq [lits ''<script'', attrs, lits ''>''],
     lits ''javascript:'',
     seq [lits ''onerror'', Star Space, lits ''=''],
     seq [lits ''onload'', Star Space, lits ''=''],
     seq [lits ''onclick'', Star Space, lits ''=''],
     seq [lits ''onmouseover'', Star Space, lits ''=''],
     seq [lits ''<iframe'', attrs, lits ''>''],
     seq [lits ''<object'', attrs, lits ''>''],
     seq [lits ''<embed'', attrs, lits ''>''],
     seq [lits ''<img'', attrs, lits ''onerror''],
     seq [lits ''<svg'', attrs, lits ''onload''],
     seq [lits ''eval'', Star Space, lits ''(''],
     seq [lits ''alert'', Star Space, lits ''(''],
     seq [lits ''prompt'', Star Space, lits ''(''],
     seq [lits ''confirm'', Star Space, lits ''(''],
     lits ''document.cookie'',
     lits ''document.write'']"

definition PATH_TRAVERSAL_PATTERNS :: "regex list" where
  "PATH_TRAVERSAL_PATTERNS =
    [alts [lits ''../'', seq [lits ''..'', Chr 92]],
     alts [lits ''%2e%2e%2f'', lits ''%2e%2e/'', seq [AnyChar, AnyChar, lits ''%2f''], lits ''%2e%2e%5c''],
     lits ''/etc/passwd'',
     lits ''/windows/system32'']"

definition COMMAND_INJECTION_PATTERNS :: "regex list" where
  "COMMAND_INJECTION_PATTERNS =
    [seq [lits '';'', Star Space, lits ''ls'', Space],
     seq [lits '';'', Star Space, lits ''cat'', Space],
     seq [lits '';'', Star Space, lits ''wget'', Space],
     seq [lits '';'', Star Space, lits ''curl'', Space],
     seq [lits ''|'', Star Space, lits ''nc'', Space],
     seq [lits ''&&'', Star Space, lits ''id''],
     seq [Chr 96, Star AnyChar, Chr 96],
     seq [lits ''$('', Star AnyChar, lits '')'']]"

subsection \<open>The detectors\<close>

datatype category = SQL_INJECTION | XSS | PATH_TRAVERSAL | COMMAND_INJECTION

text \<open>
  An entry of \<open>patterns_detected\<close>: the source formats the category name and the
  pattern into one string; the model keeps the two.
\<close>

datatype detection = Detection category regex

definition detect_sql_injection :: "str \<Rightarrow> detection list" where
  "detect_sql_injection text =
     (let text_lower = lower text
      in map (Detection SQL_INJECTION) (filter (\<lambda>pattern. search pattern text_lower) SQL_PATTERNS))"

definition detect_xss :: "str \<Rightarrow> detection list" where
  "detect_xss text =
     (let text_lower = lower text
      in map (Detection XSS) (filter (\<lambda>pattern. search pattern text_lower) XSS_PATTERNS))"

definition detect_path_traversal :: "str \<Rightarrow> detection list" where
  "detect_path_traversal text =
     map (Detection PATH_TRAVERSAL) (filter (\<lambda>pattern. search pattern text) PATH_TRAVERSAL_PATTERNS)"

definition detect_command_injection :: "str \<Rightarrow> detection list" where
  "detect_command_injection text =
     map (Detection COMMAND_INJECTION)
       (filter (\<lambda>pattern. search pattern text) COMMAND_INJECTION_PATTERNS)"

record analysis =
  is_malicious :: bool
  attack_types :: "category list"
  patterns_detected :: "detection list"

definition analyze_payload :: "str \<Rightarrow> analysis" where
  "analyze_payload text =
     (let sql_detections = detect_sql_injection text;
          xss_detections = detect_xss text;
          path_detections = detect_path_traversal text;
          cmd_detections = detect_command_injection text;
          all_detections = sql_detections @ xss_detections @ path_detections @ cmd_detections
      in if all_detections \<noteq> []
         then \<lparr>is_malicious = True,
               attack_types =
                 (if sql_detections \<noteq> [] then [SQL_INJECTION] else []) @
                 (if xss_detections \<noteq> [] then [XSS] else []) @
                 (if path_detections \<noteq> [] then [PATH_TRAVERSAL] else []) @
                 (if cmd_detections \<noteq> [] then [COMMAND_INJECTION] else []),
               patterns_detected = all_detections\<rparr>
         else \<lparr>is_malicious = False, attack_types = [], patterns_detected = []\<rparr>)"

section \<open>Properties of the rate limiter\<close>

lemma window_upd [simp]: "window (self\<lparr>requests := (requests self)(ip \<mapsto> ts)\<rparr>) ip2 = (if ip2 = ip then ts else window self ip2)"
  by (simp add: window_def)

lemma irl_fst: "fst (is_rate_limited self ip now) = (max_requests self \<le> int (length (live self now (window self ip))))"
  by (simp add: is_rate_limited_def live_def Let_def)

lemma irl_window: "window (snd (is_rate_limited self ip now)) ip2 =
   (if ip2 = ip then (if max_requests self \<le> int (length (live self now (window self ip))) then live self now (window self ip) else live self now (window self ip) @ [now]) else window self ip2)"
  by (simp add: is_rate_limited_def live_def Let_def window_def)

lemma irl_params [simp]: "max_requests (snd (is_rate_limited self ip now)) = max_requests self"
  "window_seconds (snd (is_rate_limited self ip now)) = window_seconds self"
  by (simp_all add: is_rate_limited_def Let_def)

lemma live_all: "\<forall>e\<in>set ts. now - timedelta_seconds (window_seconds self) < e \<Longrightarrow> live self now ts = ts"
  by (simp add: live_def)

lemma live_none: "\<forall>e\<in>set ts. e \<le> now - timedelta_seconds (window_seconds self) \<Longrightarrow> live self now ts = []"
  by (induction ts) (auto simp: live_def)

lemma attempts_Cons: "attempts self ip (now # nows) =
  (fst (is_rate_limited self ip now) # fst (attempts (snd (is_rate_limited self ip now)) ip nows),
   snd (attempts (snd (is_rate_limited self ip now)) ip nows))"
  by (simp add: split_beta Let_def)

declare attempts.simps(2) [simp del]

lemma attempts_params [simp]: "max_requests (snd (attempts self ip ts)) = max_requests self"
  "window_seconds (snd (attempts self ip ts)) = window_seconds self"
  by (induction ts arbitrary: self) (simp_all add: attempts_Cons)

lemma attempts_within:
  assumes "max_requests self = int c"
    and "\<forall>e\<in>set (window self ip). \<forall>t\<in>set ts. t - timedelta_seconds (window_seconds self) < e"
    and "\<forall>t\<in>set ts. \<forall>t'\<in>set ts. t - timedelta_seconds (window_seconds self) < t'"
  shows "fst (attempts self ip ts) =
           replicate (min (length ts) (c - length (window self ip))) False @
           replicate (length ts - (c - length (window self ip))) True
       \<and> window (snd (attempts self ip ts)) ip = window self ip @ take (c - length (window self ip)) ts"
  using assms
proof (induction ts arbitrary: self)
  case Nil
  then show ?case by simp
next
  case (Cons t ts)
  let ?W = "timedelta_seconds (window_seconds self)"
  let ?s1 = "snd (is_rate_limited self ip t)"
  have lv: "live self t (window self ip) = window self ip"
    using Cons.prems(2) by (intro live_all) simp
  show ?case
  proof (cases "c \<le> length (window self ip)")
    case True
    then have lim: "fst (is_rate_limited self ip t)"
      by (simp add: irl_fst lv Cons.prems(1))
    have w1: "window ?s1 ip = window self ip"
      using True by (simp add: irl_window lv Cons.prems(1))
    have "fst (attempts ?s1 ip ts) =
           replicate (min (length ts) (c - length (window ?s1 ip))) False @
           replicate (length ts - (c - length (window ?s1 ip))) True
       \<and> window (snd (attempts ?s1 ip ts)) ip = window ?s1 ip @ take (c - length (window ?s1 ip)) ts"
      using Cons.prems by (intro Cons.IH) (simp_all add: w1)
    then show ?thesis
      using True lim by (simp add: attempts_Cons w1)
  next
    case False
    then have lim: "\<not> fst (is_rate_limited self ip t)"
      by (simp add: irl_fst lv Cons.prems(1))
    have w1: "window ?s1 ip = window self ip @ [t]"
      using False by (simp add: irl_window lv Cons.prems(1))
    have "fst (attempts ?s1 ip ts) =
           replicate (min (length ts) (c - length (window ?s1 ip))) False @
           replicate (length ts - (c - length (window ?s1 ip))) True
       \<and> window (snd (attempts ?s1 ip ts)) ip = window ?s1 ip @ take (c - length (window ?s1 ip)) ts"
      using Cons.prems by (intro Cons.IH) (auto simp: w1)
    moreover have "c - length (window self ip) = Suc (c - Suc (length (window self ip)))"
      using False by simp
    ultimately show ?thesis
      using lim by (simp add: attempts_Cons w1)
  qed
qed


lemma live_idem [simp]: "live self now (live self now ts) = live self now ts"
  by (simp add: live_def)

lemma grc_fst: "fst (get_request_count self ip now) = int (length (live self now (window self ip)))"
  by (simp add: get_request_count_def live_def Let_def)

lemma grc_window: "window (snd (get_request_count self ip now)) ip2 =
   (if ip2 = ip then live self now (window self ip) else window self ip2)"
  by (simp add: get_request_count_def live_def Let_def)

lemma grc_params [simp]: "max_requests (snd (get_request_count self ip now)) = max_requests self"
  "window_seconds (snd (get_request_count self ip now)) = window_seconds self"
  by (simp_all add: get_request_count_def Let_def)

lemma get_stats_count: "stats_request_count (fst (get_stats self ip now)) = int (length (live self now (window self ip)))"
  by (simp add: get_stats_def split_beta grc_fst)

lemma get_stats_snd: "snd (get_stats self ip now) = snd (get_request_count self ip now)"
  by (simp add: get_stats_def split_beta)

lemma live_cong: "window_seconds a = window_seconds b \<Longrightarrow> live a now ts = live b now ts"
  by (simp add: live_def)

lemma get_stats_n_Suc: "get_stats_n (Suc n) self ip now =
  (fst (get_stats self ip now) # fst (get_stats_n n (snd (get_stats self ip now)) ip now),
   snd (get_stats_n n (snd (get_stats self ip now)) ip now))"
  by (simp add: split_beta Let_def)

declare get_stats_n.simps(2) [simp del]

lemma get_stats_n_counts:
  "map stats_request_count (fst (get_stats_n n self ip now)) =
     replicate n (int (length (live self now (window self ip))))
   \<and> window (snd (get_stats_n n self ip now)) ip2 =
     (if ip2 = ip \<and> 0 < n then live self now (window self ip) else window self ip2)
   \<and> window_seconds (snd (get_stats_n n self ip now)) = window_seconds self"
proof (induction n arbitrary: self)
  case 0
  then show ?case by simp
next
  case (Suc n)
  let ?s1 = "snd (get_request_count self ip now)"
  have lv: "live ?s1 now ts = live self now ts" for ts
    by (rule live_cong) simp
  show ?case
    using Suc.IH [of ?s1]
    by (simp add: get_stats_n_Suc get_stats_count get_stats_snd grc_window lv)
qed

text \<open>
  C2. For every identity and every clock reading, \<open>is_rate_limited\<close> (the spec's
  \<open>attempt\<close>) first prunes the identity's window; when the surviving count has reached
  \<open>max_requests\<close> it answers \<open>True\<close> and the stored window is the pruned one, nothing
  appended; otherwise it appends \<open>now\<close> and answers \<open>False\<close>. No other identity's
  window changes. Consequently, for a limiter of capacity \<open>c\<close> and an identity with an empty
  window, \<open>c + 1\<close> attempts whose clock readings lie pairwise within one window answer
  \<open>False\<close> \<open>c\<close> times and then \<open>True\<close>; and, for \<open>c \<ge> 1\<close>, an attempt made after every
  one of them has left the window answers \<open>False\<close> again.
\<close>

theorem is_rate_limited_attempt:
  fixes c :: nat
  shows "fst (is_rate_limited self ip now) =
           (max_requests self \<le> int (length (live self now (window self ip))))
    \<and> window (snd (is_rate_limited self ip now)) ip2 =
        (if ip2 \<noteq> ip then window self ip2
         else if fst (is_rate_limited self ip now) then live self now (window self ip)
         else live self now (window self ip) @ [now])
    \<and> (max_requests self = int c \<and> window self ip = [] \<and> length ts = Suc c \<and>
        (\<forall>t\<in>set ts. \<forall>t'\<in>set ts. t - timedelta_seconds (window_seconds self) < t')
        \<longrightarrow> fst (attempts self ip ts) = replicate c False @ [True]
          \<and> (0 < c \<and> (\<forall>t\<in>set ts. t \<le> later - timedelta_seconds (window_seconds self))
               \<longrightarrow> \<not> fst (is_rate_limited (snd (attempts self ip ts)) ip later)))"
proof (intro conjI impI)
  show "fst (is_rate_limited self ip now) =
           (max_requests self \<le> int (length (live self now (window self ip))))"
    by (rule irl_fst)
  show "window (snd (is_rate_limited self ip now)) ip2 =
        (if ip2 \<noteq> ip then window self ip2
         else if fst (is_rate_limited self ip now) then live self now (window self ip)
         else live self now (window self ip) @ [now])"
    by (simp add: irl_window irl_fst)
next
  assume h: "max_requests self = int c \<and> window self ip = [] \<and> length ts = Suc c \<and>
        (\<forall>t\<in>set ts. \<forall>t'\<in>set ts. t - timedelta_seconds (window_seconds self) < t')"
  then have aw: "fst (attempts self ip ts) =
           replicate (min (length ts) (c - length (window self ip))) False @
           replicate (length ts - (c - length (window self ip))) True
       \<and> window (snd (attempts self ip ts)) ip = window self ip @ take (c - length (window self ip)) ts"
    by (intro attempts_within) simp_all
  from aw h show "fst (attempts self ip ts) = replicate c False @ [True]"
    by simp
  assume l: "0 < c \<and> (\<forall>t\<in>set ts. t \<le> later - timedelta_seconds (window_seconds self))"
  let ?s = "snd (attempts self ip ts)"
  have w: "window ?s ip = take c ts" using aw h by simp
  have "\<forall>e\<in>set (window ?s ip). e \<le> later - timedelta_seconds (window_seconds ?s)"
    using l w by (auto dest: in_set_takeD)
  then have "live ?s later (window ?s ip) = []"
    by (rule live_none)
  then show "\<not> fst (is_rate_limited ?s ip later)"
    using l h by (simp add: irl_fst)
qed

text \<open>
  The spec's scenario: capacity 3, window 60 s; attempts at 0 s, 1 s, 2 s and
  59.999999 s, then one at 119.999999 s.
\<close>

theorem is_rate_limited_attempt_witness:
  "fst (attempts (RateLimiter_init 3 60) ''10.0.0.1'' [0, 1000000, 2000000, 59999999]) =
     [False, False, False, True]
   \<and> \<not> fst (is_rate_limited
         (snd (attempts (RateLimiter_init 3 60) ''10.0.0.1'' [0, 1000000, 2000000, 59999999]))
         ''10.0.0.1'' 119999999)"
  using is_rate_limited_attempt [of "RateLimiter_init 3 60" "''10.0.0.1''" 0 "''10.0.0.1''" 3
      "[0, 1000000, 2000000, 59999999]" 119999999]
  by (simp add: RateLimiter_init_def window_def timedelta_seconds_def numeral_3_eq_3)

text \<open>
  C3. \<open>get_stats\<close> (the spec's \<open>snapshot\<close>) never appends: \<open>n\<close> calls for one identity at
  one clock reading, with no \<open>is_rate_limited\<close> in between, all report the same count, the
  number of entries live at \<open>now\<close>. The calls store the pruned window of that identity and
  touch no other; the entries live at \<open>now\<close> are the same before and after, and every
  entry held afterwards was held before.
\<close>

theorem get_stats_never_appends:
  "map stats_request_count (fst (get_stats_n n self ip now)) =
     replicate n (int (length (live self now (window self ip))))
   \<and> window (snd (get_stats_n n self ip now)) ip2 =
     (if ip2 = ip \<and> 0 < n then live self now (window self ip) else window self ip2)
   \<and> live self now (window (snd (get_stats_n n self ip now)) ip2) = live self now (window self ip2)
   \<and> set (window (snd (get_stats_n n self ip now)) ip2) \<subseteq> set (window self ip2)"
proof -
  note h = get_stats_n_counts [of n self ip now ip2]
  have "set (live self now (window self ip)) \<subseteq> set (window self ip)"
    by (simp add: live_def)
  with h show ?thesis by simp
qed

text \<open>
  C4, as the claim states it, fails at the boundary: with a 60 s window and the clock at
  120 s, an entry recorded at exactly 60 s (\<open>now - window\<close>) is dropped by both operations.
\<close>

theorem prune_boundary_entry_dropped:
  "60000000 = 120000000 - timedelta_seconds 60
   \<and> window (snd (get_request_count
        \<lparr>max_requests = 3, window_seconds = 60, requests = [''10.0.0.1'' \<mapsto> [60000000]]\<rparr>
        ''10.0.0.1'' 120000000)) ''10.0.0.1'' = []
   \<and> window (snd (is_rate_limited
        \<lparr>max_requests = 3, window_seconds = 60, requests = [''10.0.0.1'' \<mapsto> [60000000]]\<rparr>
        ''10.0.0.1'' 120000000)) ''10.0.0.1'' = [120000000]"
  by (simp add: get_request_count_def is_rate_limited_def window_def timedelta_seconds_def Let_def)

text \<open>
  C4, amended. The prune of \<open>get_request_count\<close> and of \<open>is_rate_limited\<close> keeps, in
  order, exactly the entries strictly newer than \<open>now - window\<close>: an entry at or before
  \<open>now - window\<close> is removed, the one at exactly \<open>now - window\<close> included.
  \<open>is_rate_limited\<close> then appends \<open>now\<close> when it answers \<open>False\<close>.
\<close>

theorem prune_keeps_strictly_newer:
  "window (snd (get_request_count self ip now)) ip =
     filter (\<lambda>t. now - timedelta_seconds (window_seconds self) < t) (window self ip)
   \<and> window (snd (is_rate_limited self ip now)) ip =
     filter (\<lambda>t. now - timedelta_seconds (window_seconds self) < t) (window self ip) @
       (if fst (is_rate_limited self ip now) then [] else [now])
   \<and> set (filter (\<lambda>t. now - timedelta_seconds (window_seconds self) < t) (window self ip)) =
       {t \<in> set (window self ip). \<not> t \<le> now - timedelta_seconds (window_seconds self)}"
  by (auto simp add: grc_window irl_window irl_fst live_def)

section \<open>Properties of the fake shell\<close>

lemma lit_simps [simp]: "lit [] = []" "lit (c # cs) = of_char c # lit cs"
  by (simp_all add: lit_def)

lemma replace_home_prefix:
  assumes "startswith s (lit ''/home/'')"
  shows "startswith (replace (lit ''//'') (lit ''/'') s) (lit ''/home/'')"
proof -
  from assms obtain r where s: "s = lit ''/home/'' @ r"
    by (auto simp: startswith_def prefix_def)
  show ?thesis
    by (cases r) (simp_all add: s startswith_def)
qed

lemma replace_dotdot_suffix:
  "\<exists>x. replace (lit ''//'') (lit ''/'') (s @ lit ''/..'') = x @ lit ''/..''"
proof (induction s rule: length_induct)
  case (1 s)
  show ?case
  proof (cases s)
    case Nil
    then show ?thesis by simp
  next
    case (Cons c s1)
    note c = Cons
    show ?thesis
    proof (cases s1)
      case Nil
      then show ?thesis using c by (cases "c = 47") simp_all
    next
      case (Cons d r)
      show ?thesis
      proof (cases "c = 47 \<and> d = 47")
        case True
        from 1 have "\<exists>x. replace (lit ''//'') (lit ''/'') (r @ lit ''/..'') = x @ lit ''/..''"
          by (simp add: c Cons)
        then obtain x where "replace (lit ''//'') (lit ''/'') (r @ lit ''/..'') = x @ lit ''/..''" ..
        then have "replace (lit ''//'') (lit ''/'') (s @ lit ''/..'') = (47 # x) @ lit ''/..''"
          using True by (simp add: c Cons)
        then show ?thesis by blast
      next
        case False
        from 1 have "\<exists>x. replace (lit ''//'') (lit ''/'') (s1 @ lit ''/..'') = x @ lit ''/..''"
          by (simp add: c)
        then obtain x where "replace (lit ''//'') (lit ''/'') (s1 @ lit ''/..'') = x @ lit ''/..''" ..
        then have "replace (lit ''//'') (lit ''/'') (s @ lit ''/..'') = (c # x) @ lit ''/..''"
          using False by (auto simp add: c Cons)
        then show ?thesis by blast
      qed
    qed
  qed
qed

lemma rstrip_dotdot: "suffix (lit ''/..'') s \<Longrightarrow> rstrip (lit ''/'') s = s"
  by (auto simp: suffix_def rstrip_def)

text \<open>A path without two slashes in a row is left as it is by \<open>replace('//', '/')\<close>.\<close>

lemma replace_no_double_slash:
  "\<not> sublist (lit ''//'') s \<Longrightarrow> replace (lit ''//'') (lit ''/'') s = s"
proof (induction s)
  case Nil
  then show ?case by simp
next
  case (Cons c cs)
  have "sublist (lit ''//'') (c # cs) \<longleftrightarrow> prefix (lit ''//'') (c # cs) \<or> sublist (lit ''//'') cs"
    by (rule sublist_Cons_right)
  with Cons.prems have np: "\<not> prefix (lit ''//'') (c # cs)" and ns: "\<not> sublist (lit ''//'') cs"
    by simp_all
  from ns have ih: "replace (lit ''//'') (lit ''/'') cs = cs" by (rule Cons.IH)
  have ne: "lit ''//'' \<noteq> []" by simp
  show ?case
    by (simp only: replace.simps ne np if_False ih)
qed


lemma FakeShell_init_cwd: "cwd (FakeShell_init user) = lit ''/home/'' @ user"
  and FakeShell_init_username: "username (FakeShell_init user) = user"
  and FakeShell_init_hostname: "hostname (FakeShell_init user) = lit ''ubuntu-server''"
  by (simp_all add: FakeShell_init_def)

lemma FakeShell_init_filesystem:
  "filesystem (FakeShell_init user) = Map.empty
        (lit ''/'' \<mapsto> [lit ''bin'', lit ''etc'', lit ''home'', lit ''var'', lit ''usr'', lit ''tmp''],
         lit ''/home'' \<mapsto> [user, lit ''admin'', lit ''user''],
         lit ''/home/'' @ user \<mapsto>
           [lit ''documents'', lit ''downloads'', lit ''.bash_history'', lit ''.ssh''],
         lit ''/home/'' @ user @ lit ''/documents'' \<mapsto> [lit ''passwords.txt'', lit ''notes.txt''],
         lit ''/etc'' \<mapsto> [lit ''passwd'', lit ''shadow'', lit ''hosts'', lit ''ssh''],
         lit ''/var'' \<mapsto> [lit ''log'', lit ''www''])"
  unfolding FakeShell_init_def by (rule FakeShell.select_convs)

lemma FakeShell_init_files:
  "files (FakeShell_init user) = Map.empty
        (lit ''/etc/passwd'' \<mapsto>
           lit ''root:x:0:0:root:/root:/bin/bash\<newline>ubuntu:x:1000:1000::/home/ubuntu:/bin/bash\<newline>'',
         lit ''/etc/hosts'' \<mapsto> lit ''127.0.0.1 localhost\<newline>127.0.1.1 ubuntu-server\<newline>'',
         lit ''/home/'' @ user @ lit ''/.bash_history'' \<mapsto>
           lit ''ls -la\<newline>cd documents\<newline>cat passwords.txt\<newline>exit\<newline>'',
         lit ''/home/'' @ user @ lit ''/documents/passwords.txt'' \<mapsto>
           lit ''mysql_password: notreal123\<newline>ssh_key_pass: fake_password\<newline>'')"
  unfolding FakeShell_init_def by (rule FakeShell.select_convs)

lemmas FakeShell_init_sel = FakeShell_init_cwd FakeShell_init_username FakeShell_init_hostname
  FakeShell_init_filesystem FakeShell_init_files

text \<open>
  C5, as the claim states it, fails twice on the shell of user \<open>root\<close>. \<open>ls -la /etc\<close>
  does not skip the flag and list \<open>/etc\<close>: it lists the current directory \<open>/home/root\<close>.
  And the names are joined with two spaces, not one: \<open>ls\<close> in \<open>/\<close> answers
  \<open>bin  etc  home  var  usr  tmp\<close>.
\<close>

theorem cmd_ls_flag_then_path_lists_cwd:
  "cmd_ls (FakeShell_init (lit ''root'')) [lit ''-la'', lit ''/etc''] =
     lit ''documents  downloads  .bash_history  .ssh''
   \<and> filesystem (FakeShell_init (lit ''root'')) (lit ''/etc'') =
     Some [lit ''passwd'', lit ''shadow'', lit ''hosts'', lit ''ssh'']
   \<and> cmd_ls (FakeShell_init (lit ''root'')\<lparr>cwd := lit ''/''\<rparr>) [] =
     lit ''bin  etc  home  var  usr  tmp''
   \<and> cmd_ls (FakeShell_init (lit ''root'')\<lparr>cwd := lit ''/''\<rparr>) [] \<noteq>
     lit ''bin etc home var usr tmp''"
  by (simp add: cmd_ls_def FakeShell_init_sel rstrip_def startswith_def)

text \<open>
  C5, amended. \<open>ls\<close> reads its operand from the first argument only. When there is no
  argument, or the first argument begins with \<open>-\<close>, every argument is ignored and the
  current directory is listed. Otherwise the first argument is the path: taken as it is
  when it begins with \<open>/\<close>, else appended to \<open>cwd\<close> after a \<open>/\<close>; listing it is listing
  the current directory of a shell moved there. The listing strips trailing slashes from
  the path (the empty result standing for \<open>/\<close>) and answers the child names of that
  directory in their stored order, joined by two spaces, or the error message naming the
  stripped path when it is no key of the directory table.
\<close>

theorem cmd_ls_resolution:
  "cmd_ls self (a # rest) = cmd_ls self [a]
   \<and> (startswith a (lit ''-'') \<longrightarrow> cmd_ls self [a] = cmd_ls self [])
   \<and> (\<not> startswith a (lit ''-'') \<and> startswith a (lit ''/'') \<longrightarrow>
        cmd_ls self [a] = cmd_ls (self\<lparr>cwd := a\<rparr>) [])
   \<and> (\<not> startswith a (lit ''-'') \<and> \<not> startswith a (lit ''/'') \<longrightarrow>
        cmd_ls self [a] = cmd_ls (self\<lparr>cwd := cwd self @ lit ''/'' @ a\<rparr>) [])
   \<and> cmd_ls self [] =
       (let stripped = rstrip (lit ''/'') (cwd self);
            path = (if stripped = [] then lit ''/'' else stripped)
        in case filesystem self path of
             Some names \<Rightarrow> join (lit ''  '') names
           | None \<Rightarrow> lit ''ls: cannot access '' @ [39] @ path @ [39] @
                      lit '': No such file or directory'')"
  by (simp add: cmd_ls_def Let_def)

theorem cmd_ls_resolution_witness:
  "cmd_ls (FakeShell_init (lit ''root'')) [lit ''/etc/'', lit ''/var''] = lit ''passwd  shadow  hosts  ssh''
   \<and> cmd_ls (FakeShell_init (lit ''root'')) [lit ''-la''] = lit ''documents  downloads  .bash_history  .ssh''
   \<and> cmd_ls (FakeShell_init (lit ''root'')) [lit ''documents''] = lit ''passwords.txt  notes.txt''"
  using cmd_ls_resolution [of "FakeShell_init (lit ''root'')" "lit ''/etc/''" "[lit ''/var'']"]
    cmd_ls_resolution [of "FakeShell_init (lit ''root'')" "lit ''-la''" "[]"]
    cmd_ls_resolution [of "FakeShell_init (lit ''root'')" "lit ''documents''" "[]"]
    cmd_ls_resolution [of "FakeShell_init (lit ''root'')\<lparr>cwd := lit ''/etc/''\<rparr>" "[]" "[]"]
    cmd_ls_resolution [of "FakeShell_init (lit ''root'')\<lparr>cwd := lit ''/home/root/documents''\<rparr>" "[]" "[]"]
  by (simp add: FakeShell_init_sel rstrip_def startswith_def Let_def)

text \<open>
  C6, as the claim states it, fails for a known node that is a file: \<open>/etc/passwd\<close> is a
  file node of the shell of user \<open>root\<close>, yet \<open>cd /etc/passwd\<close> answers the error and
  leaves \<open>cwd\<close> at \<open>/home/root\<close>.
\<close>

theorem cmd_cd_rejects_file_node:
  "files (FakeShell_init (lit ''root'')) (lit ''/etc/passwd'') =
     Some (lit ''root:x:0:0:root:/root:/bin/bash\<newline>ubuntu:x:1000:1000::/home/ubuntu:/bin/bash\<newline>'')
   \<and> cmd_cd (FakeShell_init (lit ''root'')) [lit ''/etc/passwd''] =
     (lit ''bash: cd: /etc/passwd: No such file or directory'', FakeShell_init (lit ''root''))
   \<and> cwd (FakeShell_init (lit ''root'')) = lit ''/home/root''"
  by (simp add: cmd_cd_def FakeShell_init_sel startswith_def dom_def)

text \<open>
  C6, amended. With no argument \<open>cd\<close> sets \<open>cwd\<close> to \<open>/home/\<close> followed by the captured
  username. With an argument, the target is the first argument when it begins with \<open>/\<close>,
  else \<open>cwd\<close>, a \<open>/\<close> and the argument with every \<open>//\<close> replaced by \<open>/\<close>. The target is
  accepted (empty message, \<open>cwd\<close> set to it, nothing else changed) if and only if it is a
  key of the directory table or begins with \<open>/home/\<close>; a file node outside \<open>/home/\<close> is
  not accepted. In every other case \<open>cd\<close> answers a non-empty error message and the shell
  is unchanged.
\<close>

theorem cmd_cd_accepts_directory_or_home:
  "cmd_cd self [] = ([], self\<lparr>cwd := lit ''/home/'' @ username self\<rparr>)
   \<and> (let target = (if startswith new_path (lit ''/'') then new_path
                     else replace (lit ''//'') (lit ''/'') (cwd self @ lit ''/'' @ new_path));
            accepted = (target \<in> dom (filesystem self) \<or> startswith target (lit ''/home/''))
        in (fst (cmd_cd self (new_path # rest)) = [] \<longleftrightarrow> accepted)
         \<and> (accepted \<longrightarrow> snd (cmd_cd self (new_path # rest)) = self\<lparr>cwd := target\<rparr>)
         \<and> (\<not> accepted \<longrightarrow>
               cmd_cd self (new_path # rest) =
                 (lit ''bash: cd: '' @ new_path @ lit '': No such file or directory'', self)))"
  by (simp add: cmd_cd_def Let_def)

theorem cmd_cd_accepts_directory_or_home_witness:
  "cmd_cd (FakeShell_init (lit ''root'')) [lit ''/etc''] =
     ([], FakeShell_init (lit ''root'')\<lparr>cwd := lit ''/etc''\<rparr>)
   \<and> cmd_cd (FakeShell_init (lit ''root'')) [lit ''downloads/x''] =
     ([], FakeShell_init (lit ''root'')\<lparr>cwd := lit ''/home/root/downloads/x''\<rparr>)
   \<and> cmd_cd (FakeShell_init (lit ''root'')) [lit ''/usr''] =
     (lit ''bash: cd: /usr: No such file or directory'', FakeShell_init (lit ''root''))"
  using cmd_cd_accepts_directory_or_home [of "FakeShell_init (lit ''root'')" "lit ''/etc''" "[]"]
    cmd_cd_accepts_directory_or_home [of "FakeShell_init (lit ''root'')" "lit ''downloads/x''" "[]"]
    cmd_cd_accepts_directory_or_home [of "FakeShell_init (lit ''root'')" "lit ''/usr''" "[]"]
  by (simp add: FakeShell_init_sel startswith_def Let_def prod_eq_iff)


lemma execute_pwd: "execute_command self (lit ''pwd'') = Inr (Some (cwd self), self)"
  by (simp add: execute_command_def strip_def split_def isspace_def)

text \<open>
  C10, as the claim states it, fails for \<open>cd\<close>: its target is not the literal
  concatenation. In the shell of user \<open>root\<close>, \<open>cd /\<close> is accepted and sets \<open>cwd\<close> to
  \<open>/\<close>. From there the concatenation of \<open>cwd\<close>, \<open>/\<close> and \<open>etc\<close> is \<open>//etc\<close>; \<open>ls etc\<close>
  looks up \<open>//etc\<close> and \<open>cat etc/passwd\<close> looks up \<open>//etc/passwd\<close>, both in vain, but
  \<open>cd etc\<close> replaces \<open>//\<close> by \<open>/\<close> and moves to the listed directory \<open>/etc\<close>.
\<close>

theorem cmd_cd_collapses_double_slash:
  "cmd_cd (FakeShell_init (lit ''root'')) [lit ''/''] =
     ([], FakeShell_init (lit ''root'')\<lparr>cwd := lit ''/''\<rparr>)
   \<and> cmd_cd (FakeShell_init (lit ''root'')\<lparr>cwd := lit ''/''\<rparr>) [lit ''etc''] =
     ([], FakeShell_init (lit ''root'')\<lparr>cwd := lit ''/etc''\<rparr>)
   \<and> lit ''/'' @ lit ''/'' @ lit ''etc'' = lit ''//etc''
   \<and> lit ''//etc'' \<noteq> lit ''/etc''
   \<and> cmd_ls (FakeShell_init (lit ''root'')\<lparr>cwd := lit ''/''\<rparr>) [lit ''etc''] =
     lit ''ls: cannot access '' @ [39] @ lit ''//etc'' @ [39] @ lit '': No such file or directory''
   \<and> cmd_cat (FakeShell_init (lit ''root'')\<lparr>cwd := lit ''/''\<rparr>) [lit ''etc/passwd''] =
     lit ''cat: etc/passwd: No such file or directory''
   \<and> cmd_ls (FakeShell_init (lit ''root'')\<lparr>cwd := lit ''/etc''\<rparr>) [] =
     lit ''passwd  shadow  hosts  ssh''"
  by (simp add: cmd_cd_def cmd_ls_def cmd_cat_def FakeShell_init_sel startswith_def rstrip_def)

text \<open>
  C10, amended. A relative operand (one not beginning with \<open>/\<close>) is resolved by
  appending \<open>/\<close> and the operand to \<open>cwd\<close>; no \<open>.\<close> or \<open>..\<close> segment is interpreted.
  \<open>cat\<close> looks that string up as it is, and \<open>ls\<close> lists it as the current directory of
  a shell moved there (trailing slashes stripped). \<open>cd\<close> does not take the string as it
  is: it replaces every \<open>//\<close> in it by \<open>/\<close>, and accepts or rejects the result; only for
  a string without \<open>//\<close> is the target the concatenation itself. From a \<open>cwd\<close>
  beginning with \<open>/home/\<close>, \<open>cd ..\<close> is accepted and the new \<open>cwd\<close> ends in \<open>/..\<close>;
  afterwards \<open>pwd\<close> answers that string, \<open>ls\<close> looks that string up in the directory
  table and \<open>cat\<close> looks up that string followed by \<open>/\<close> and its operand.
\<close>

theorem relative_paths_appended_cd_collapses_slashes:
  "(\<not> startswith a (lit ''/'') \<longrightarrow>
      cmd_cat self (a # rest) =
        (case files self (cwd self @ lit ''/'' @ a) of
           Some content \<Rightarrow> content
         | None \<Rightarrow> lit ''cat: '' @ a @ lit '': No such file or directory'')
      \<and> (\<not> startswith a (lit ''-'') \<longrightarrow>
            cmd_ls self (a # rest) = cmd_ls (self\<lparr>cwd := cwd self @ lit ''/'' @ a\<rparr>) [])
      \<and> cmd_cd self (a # rest) =
          (let target = replace (lit ''//'') (lit ''/'') (cwd self @ lit ''/'' @ a)
           in if target \<in> dom (filesystem self) \<or> startswith target (lit ''/home/'')
              then ([], self\<lparr>cwd := target\<rparr>)
              else (lit ''bash: cd: '' @ a @ lit '': No such file or directory'', self))
      \<and> (\<not> sublist (lit ''//'') (cwd self @ lit ''/'' @ a) \<longrightarrow>
            replace (lit ''//'') (lit ''/'') (cwd self @ lit ''/'' @ a) = cwd self @ lit ''/'' @ a))
   \<and> (startswith (cwd self) (lit ''/home/'') \<longrightarrow>
        (let self' = snd (cmd_cd self [lit ''..''])
         in fst (cmd_cd self [lit ''..'']) = []
          \<and> self' = self\<lparr>cwd := cwd self'\<rparr>
          \<and> suffix (lit ''/..'') (cwd self')
          \<and> cwd self' = replace (lit ''//'') (lit ''/'') (cwd self @ lit ''/..'')
          \<and> (\<not> sublist (lit ''//'') (cwd self @ lit ''/..'') \<longrightarrow> cwd self' = cwd self @ lit ''/..'')
          \<and> execute_command self' (lit ''pwd'') = Inr (Some (cwd self'), self')
          \<and> cmd_ls self' [] =
              (case filesystem self (cwd self') of
                 Some names \<Rightarrow> join (lit ''  '') names
               | None \<Rightarrow> lit ''ls: cannot access '' @ [39] @ cwd self' @ [39] @
                          lit '': No such file or directory'')
          \<and> (\<not> startswith f (lit ''/'') \<longrightarrow>
               cmd_cat self' [f] =
                 (case files self (cwd self' @ lit ''/'' @ f) of
                    Some content \<Rightarrow> content
                  | None \<Rightarrow> lit ''cat: '' @ f @ lit '': No such file or directory''))))"
proof (intro conjI impI)
  assume rel: "\<not> startswith a (lit ''/'')"
  show "cmd_cat self (a # rest) =
        (case files self (cwd self @ lit ''/'' @ a) of
           Some content \<Rightarrow> content
         | None \<Rightarrow> lit ''cat: '' @ a @ lit '': No such file or directory'')"
    using rel by (simp add: cmd_cat_def)
  show "cmd_ls self (a # rest) = cmd_ls (self\<lparr>cwd := cwd self @ lit ''/'' @ a\<rparr>) []"
    if "\<not> startswith a (lit ''-'')"
    using rel that by (simp add: cmd_ls_def)
  show "cmd_cd self (a # rest) =
          (let target = replace (lit ''//'') (lit ''/'') (cwd self @ lit ''/'' @ a)
           in if target \<in> dom (filesystem self) \<or> startswith target (lit ''/home/'')
              then ([], self\<lparr>cwd := target\<rparr>)
              else (lit ''bash: cd: '' @ a @ lit '': No such file or directory'', self))"
    using rel by (simp add: cmd_cd_def Let_def)
  show "replace (lit ''//'') (lit ''/'') (cwd self @ lit ''/'' @ a) = cwd self @ lit ''/'' @ a"
    if "\<not> sublist (lit ''//'') (cwd self @ lit ''/'' @ a)"
    using that by (rule replace_no_double_slash)
next
  assume home: "startswith (cwd self) (lit ''/home/'')"
  let ?t = "replace (lit ''//'') (lit ''/'') (cwd self @ lit ''/..'')"
  have nabs: "\<not> startswith (lit ''..'') (lit ''/'')"
    by (simp add: startswith_def)
  have "startswith (cwd self @ lit ''/..'') (lit ''/home/'')"
    using home by (auto simp: startswith_def prefix_def)
  then have acc: "startswith ?t (lit ''/home/'')"
    by (rule replace_home_prefix)
  have cd: "cmd_cd self [lit ''..''] = ([], self\<lparr>cwd := ?t\<rparr>)"
    using nabs acc by (simp add: cmd_cd_def Let_def)
  obtain x where x: "?t = x @ lit ''/..''"
    using replace_dotdot_suffix [of "cwd self"] by blast
  then have suf: "suffix (lit ''/..'') ?t"
    by (simp only: suffix_def) blast
  have ls: "cmd_ls (self\<lparr>cwd := ?t\<rparr>) [] =
              (case filesystem self ?t of
                 Some names \<Rightarrow> join (lit ''  '') names
               | None \<Rightarrow> lit ''ls: cannot access '' @ [39] @ ?t @ [39] @
                          lit '': No such file or directory'')"
    using rstrip_dotdot [OF suf] x by (simp add: cmd_ls_def Let_def split: option.split)
  have cat: "\<not> startswith f (lit ''/'') \<longrightarrow>
               cmd_cat (self\<lparr>cwd := ?t\<rparr>) [f] =
                 (case files self (?t @ lit ''/'' @ f) of
                    Some content \<Rightarrow> content
                  | None \<Rightarrow> lit ''cat: '' @ f @ lit '': No such file or directory'')"
    by (simp add: cmd_cat_def)
  have lit: "\<not> sublist (lit ''//'') (cwd self @ lit ''/..'') \<longrightarrow> ?t = cwd self @ lit ''/..''"
    using replace_no_double_slash by blast
  show "let self' = snd (cmd_cd self [lit ''..''])
         in fst (cmd_cd self [lit ''..'']) = []
          \<and> self' = self\<lparr>cwd := cwd self'\<rparr>
          \<and> suffix (lit ''/..'') (cwd self')
          \<and> cwd self' = replace (lit ''//'') (lit ''/'') (cwd self @ lit ''/..'')
          \<and> (\<not> sublist (lit ''//'') (cwd self @ lit ''/..'') \<longrightarrow> cwd self' = cwd self @ lit ''/..'')
          \<and> execute_command self' (lit ''pwd'') = Inr (Some (cwd self'), self')
          \<and> cmd_ls self' [] =
              (case filesystem self (cwd self') of
                 Some names \<Rightarrow> join (lit ''  '') names
               | None \<Rightarrow> lit ''ls: cannot access '' @ [39] @ cwd self' @ [39] @
                          lit '': No such file or directory'')
          \<and> (\<not> startswith f (lit ''/'') \<longrightarrow>
               cmd_cat self' [f] =
                 (case files self (cwd self' @ lit ''/'' @ f) of
                    Some content \<Rightarrow> content
                  | None \<Rightarrow> lit ''cat: '' @ f @ lit '': No such file or directory''))"
    unfolding Let_def cd snd_conv fst_conv
    using suf ls cat lit execute_pwd [of "self\<lparr>cwd := ?t\<rparr>"]
    by (simp cong: option.case_cong)
qed


text \<open>
  The shell of user \<open>root\<close> in \<open>/home/root/documents\<close>: after \<open>cd ..\<close> the current
  directory is the string \<open>/home/root/documents/..\<close>, which \<open>pwd\<close> prints, \<open>ls\<close> cannot
  find, and under which \<open>cat .bash_history\<close> finds nothing, although the parent
  \<open>/home/root\<close> is a listed directory.
\<close>

theorem relative_paths_appended_cd_collapses_slashes_witness:
  "cmd_cd (FakeShell_init (lit ''root'')\<lparr>cwd := lit ''/home/root/documents''\<rparr>) [lit ''..''] =
     ([], FakeShell_init (lit ''root'')\<lparr>cwd := lit ''/home/root/documents/..''\<rparr>)
   \<and> execute_command (FakeShell_init (lit ''root'')\<lparr>cwd := lit ''/home/root/documents/..''\<rparr>)
       (lit ''pwd'') =
     Inr (Some (lit ''/home/root/documents/..''),
          FakeShell_init (lit ''root'')\<lparr>cwd := lit ''/home/root/documents/..''\<rparr>)
   \<and> cmd_ls (FakeShell_init (lit ''root'')\<lparr>cwd := lit ''/home/root/documents/..''\<rparr>) [] =
     lit ''ls: cannot access '' @ [39] @ lit ''/home/root/documents/..'' @ [39] @
     lit '': No such file or directory''
   \<and> cmd_cat (FakeShell_init (lit ''root'')\<lparr>cwd := lit ''/home/root/documents/..''\<rparr>)
       [lit ''.bash_history''] =
     lit ''cat: .bash_history: No such file or directory''
   \<and> cmd_ls (FakeShell_init (lit ''root'')\<lparr>cwd := lit ''/home/root''\<rparr>) [] =
     lit ''documents  downloads  .bash_history  .ssh''"
proof -
  let ?sh = "FakeShell_init (lit ''root'')\<lparr>cwd := lit ''/home/root/documents''\<rparr>"
  have parent: "cmd_ls (FakeShell_init (lit ''root'')\<lparr>cwd := lit ''/home/root''\<rparr>) [] =
     lit ''documents  downloads  .bash_history  .ssh''"
    by (simp add: cmd_ls_def FakeShell_init_sel rstrip_def)
  have cd: "cmd_cd ?sh [lit ''..''] =
      ([], FakeShell_init (lit ''root'')\<lparr>cwd := lit ''/home/root/documents/..''\<rparr>)"
    by (simp add: cmd_cd_def startswith_def)
  show ?thesis
    using relative_paths_appended_cd_collapses_slashes [of "lit ''..''" ?sh "[]" "lit ''.bash_history''"] parent
    unfolding cd Let_def
    by (simp add: startswith_def FakeShell_init_sel)
qed

section \<open>Properties of the interactive session\<close>

text \<open>A sample of the decoder, with ill-formed and truncated sequences.\<close>

lemma decode_sample: "utf8_decode_ignore [0xFF, 0x01, 0xC3, 0xA9, 0xE2, 0x82, 0xAC, 0xF0, 0x9F, 0x98, 0x80, 0xE2, 0x82, 0x41, 0xC0, 0x80, 0xED, 0xA0, 0x80, 0xC3] = [1, 233, 8364, 128512, 65]"
  by (simp add: is_continuation_def)

lemma send_ok:
  "sends_left ch \<noteq> Some 0 \<Longrightarrow>
     send ch t = Inr (ch\<lparr>sent := sent ch @ [t], sends_left := map_option (\<lambda>n. n - 1) (sends_left ch)\<rparr>)"
  by (cases ch) (auto simp: send_def split: option.splits nat.splits)

lemma send_fails: "sends_left ch = Some 0 \<Longrightarrow> send ch t = Inl SocketError"
  by (simp add: send_def)

lemma send_None: "sends_left ch = None \<Longrightarrow> send ch t = Inr (ch\<lparr>sent := sent ch @ [t]\<rparr>)"
  by (simp add: send_def)

lemma execute_ls: "execute_command sh (lit ''ls'') = Inr (Some (cmd_ls sh []), sh)"
  by (simp add: execute_command_def strip_def split_def isspace_def)

lemma strip_ls: "strip (lit ''ls'') = lit ''ls''"
  by (simp add: strip_def isspace_def)


text \<open>
  The session record is logged exactly when the loop is left by \<open>break\<close>, and then
  once, with the commands collected so far.
\<close>

lemma handle_client_logs_iff_closed:
  "fst (handle_client channel0 ip user polls) =
     (case snd (handle_client channel0 ip user polls) of
        Closed s \<Rightarrow> [\<lparr>record_ip = ip, record_username = user, record_commands = commands s\<rparr>]
      | Raised e s \<Rightarrow> []
      | Pending s \<Rightarrow> [])"
  by (simp add: handle_client_def Let_def split: sum.splits outcome.splits prod.splits)

text \<open>
  The two closures that do reach \<open>log_session\<close>: \<open>exit\<close>, and a peer that closes
  the channel after \<open>ls\<close>.
\<close>

lemma exit_logs_one_session_record:
  "fst (handle_client \<lparr>sent = [], sends_left = None, active = True\<rparr> ''203.0.113.7'' (lit ''root'')
         [\<lparr>recv = Some [0x65, 0x78, 0x69, 0x74, 0x0D], peer_active = True\<rparr>]) =
     [\<lparr>record_ip = ''203.0.113.7'', record_username = lit ''root'', record_commands = [lit ''exit'']\<rparr>]"
  by (simp add: handle_client_def session_send_def send_def process_char_def execute_command_def
      strip_def split_def isspace_def get_prompt_def FakeShell_init_sel close_def)

lemma disconnect_logs_one_session_record:
  "fst (handle_client \<lparr>sent = [], sends_left = None, active = True\<rparr> ''203.0.113.7'' (lit ''root'')
         [\<lparr>recv = Some [0x6C, 0x73, 0x0D], peer_active = True\<rparr>, \<lparr>recv = None, peer_active = False\<rparr>]) =
     [\<lparr>record_ip = ''203.0.113.7'', record_username = lit ''root'', record_commands = [lit ''ls'']\<rparr>]"
  by (simp add: handle_client_def session_send_def send_def process_char_def execute_command_def
      strip_def split_def isspace_def cmd_ls_def get_prompt_def FakeShell_init_sel rstrip_def)

text \<open>
  C1. The claim fails on a transport failure. The shell is granted to user \<open>root\<close>;
  the peer sends \<open>ls\<close> and a carriage return, and the transport fails so that the fifth
  \<open>send\<close> (the output of \<open>ls\<close>) raises, after the banner, the prompt and the two echoed
  characters. The exception leaves \<open>handle_client\<close> through its \<open>except\<close> clause with the
  history \<open>[ls]\<close> collected, and no session record is logged.
\<close>

theorem transport_failure_logs_no_session_record:
  "fst (handle_client \<lparr>sent = [], sends_left = Some 4, active = True\<rparr> ''203.0.113.7'' (lit ''root'')
         [\<lparr>recv = Some [0x6C, 0x73, 0x0D], peer_active = True\<rparr>]) = []
   \<and> (case snd (handle_client \<lparr>sent = [], sends_left = Some 4, active = True\<rparr> ''203.0.113.7'' (lit ''root'')
         [\<lparr>recv = Some [0x6C, 0x73, 0x0D], peer_active = True\<rparr>]) of
        Raised e s \<Rightarrow> e = SocketError \<and> commands s = [lit ''ls'']
      | _ \<Rightarrow> False)"
  by (simp add: handle_client_def session_send_def send_def process_char_def execute_command_def
      strip_def split_def isspace_def cmd_ls_def get_prompt_def FakeShell_init_sel rstrip_def)


text \<open>
  C7, as the claim states it, fails for a byte that is not valid UTF-8: the byte \<open>0xFF\<close>
  is none of the four special bytes, yet a received chunk holding it leaves the buffer
  empty and echoes nothing, the decoder having dropped it.
\<close>

theorem invalid_byte_dropped_not_buffered:
  "utf8_decode_ignore [0xFF] = []
   \<and> interaction_loop [\<lparr>recv = Some [0xFF], peer_active = True\<rparr>]
       \<lparr>shell = FakeShell_init (lit ''root''),
        chan = \<lparr>sent = [], sends_left = None, active = True\<rparr>, commands = [], buffer = []\<rparr> =
     Pending
       \<lparr>shell = FakeShell_init (lit ''root''),
        chan = \<lparr>sent = [], sends_left = None, active = True\<rparr>, commands = [], buffer = []\<rparr>"
  by simp


text \<open>
  C7, amended. Every character of the decoded stream that is not carriage return, line
  feed, \<open>0x7F\<close> or \<open>0x03\<close> is appended to the buffer and echoed back, and processing
  it raises nothing unless the transport fails in the echo (the character is then already
  in the buffer). Every byte below \<open>0x80\<close>, unrecognised control bytes included, decodes
  to itself and so is such a character. A byte that cannot start a UTF-8 sequence
  (\<open>0x80\<close> to \<open>0xC1\<close>, \<open>0xF5\<close> to \<open>0xFF\<close>) is dropped by the decoder: it is neither
  buffered nor echoed, and it is not fatal either.
\<close>

theorem other_characters_buffered_and_echoed:
  "(char \<noteq> 13 \<and> char \<noteq> 10 \<and> char \<noteq> 0x7F \<and> char \<noteq> 0x03 \<longrightarrow>
      (sends_left (chan s) \<noteq> Some 0 \<longrightarrow>
         process_char s char =
           Inr (False, s\<lparr>buffer := buffer s @ [char],
                          chan := (chan s)\<lparr>sent := sent (chan s) @ [[char]],
                                           sends_left := map_option (\<lambda>n. n - 1) (sends_left (chan s))\<rparr>\<rparr>))
      \<and> (sends_left (chan s) = Some 0 \<longrightarrow>
         process_char s char = Inl (SocketError, s\<lparr>buffer := buffer s @ [char]\<rparr>)))
   \<and> (b < 0x80 \<longrightarrow> utf8_decode_ignore (b # bs) = unat b # utf8_decode_ignore bs)
   \<and> ((0x80 \<le> b \<and> b < 0xC2) \<or> 0xF5 \<le> b \<longrightarrow> utf8_decode_ignore (b # bs) = utf8_decode_ignore bs)"
proof (intro conjI impI)
  assume c: "char \<noteq> 13 \<and> char \<noteq> 10 \<and> char \<noteq> 0x7F \<and> char \<noteq> 0x03"
  show "process_char s char =
           Inr (False, s\<lparr>buffer := buffer s @ [char],
                          chan := (chan s)\<lparr>sent := sent (chan s) @ [[char]],
                                           sends_left := map_option (\<lambda>n. n - 1) (sends_left (chan s))\<rparr>\<rparr>)"
    if "sends_left (chan s) \<noteq> Some 0"
    using c that by (simp add: process_char_def session_send_def send_ok)
  show "process_char s char = Inl (SocketError, s\<lparr>buffer := buffer s @ [char]\<rparr>)"
    if "sends_left (chan s) = Some 0"
    using c that by (simp add: process_char_def session_send_def send_fails)
next
  show "utf8_decode_ignore (b # bs) = unat b # utf8_decode_ignore bs" if "b < 0x80"
    using that by simp
  show "utf8_decode_ignore (b # bs) = utf8_decode_ignore bs" if "(0x80 \<le> b \<and> b < 0xC2) \<or> 0xF5 \<le> b"
  proof -
    from that have "\<not> b < 0x80" and "b < 0xC2 \<or> (\<not> b < 0xE0 \<and> \<not> b < 0xF0 \<and> \<not> b < 0xF5)"
      by (auto simp: word_less_def word_le_def)
    then show ?thesis by auto
  qed
qed

theorem other_characters_buffered_and_echoed_witness:
  "process_char
     \<lparr>shell = FakeShell_init (lit ''root''),
      chan = \<lparr>sent = [], sends_left = Some 1, active = True\<rparr>, commands = [], buffer = lit ''l''\<rparr> 1 =
   Inr (False,
     \<lparr>shell = FakeShell_init (lit ''root''),
      chan = \<lparr>sent = [[1]], sends_left = Some 0, active = True\<rparr>, commands = [], buffer = lit ''l'' @ [1]\<rparr>)
   \<and> process_char
     \<lparr>shell = FakeShell_init (lit ''root''),
      chan = \<lparr>sent = [], sends_left = Some 0, active = True\<rparr>, commands = [], buffer = lit ''l''\<rparr> 1 =
   Inl (SocketError,
     \<lparr>shell = FakeShell_init (lit ''root''),
      chan = \<lparr>sent = [], sends_left = Some 0, active = True\<rparr>, commands = [], buffer = lit ''l'' @ [1]\<rparr>)
   \<and> utf8_decode_ignore [0x01, 0x1B] = [1, 27]
   \<and> utf8_decode_ignore [0x80, 0x1B] = [27]
   \<and> utf8_decode_ignore [0xFF, 0x1B] = [27]"
  using other_characters_buffered_and_echoed [of 1 "\<lparr>shell = FakeShell_init (lit ''root''),
      chan = \<lparr>sent = [], sends_left = Some 1, active = True\<rparr>, commands = [], buffer = lit ''l''\<rparr>" "0x01" "[0x1B]"]
    other_characters_buffered_and_echoed [of 1 "\<lparr>shell = FakeShell_init (lit ''root''),
      chan = \<lparr>sent = [], sends_left = Some 0, active = True\<rparr>, commands = [], buffer = lit ''l''\<rparr>" "0x80" "[0x1B]"]
    other_characters_buffered_and_echoed [of 1 "\<lparr>shell = FakeShell_init (lit ''root''),
      chan = \<lparr>sent = [], sends_left = Some 0, active = True\<rparr>, commands = [], buffer = lit ''l''\<rparr>" "0xFF" "[0x1B]"]
  by simp


text \<open>
  C9. Backspace (\<open>0x7F\<close>) on an empty buffer changes nothing and sends nothing. On a
  non-empty buffer it drops exactly the last character and, the transport permitting,
  echoes backspace, space, backspace. The truncation precedes dispatch: from an empty
  buffer, the bytes of \<open>lsx\<close>, one backspace and a carriage return record \<open>ls\<close> in the
  history, run \<open>ls\<close> (its output, when not empty, is sent between line breaks), send the
  prompt and clear the buffer.
\<close>

theorem backspace_truncates_before_dispatch:
  "(buffer s = [] \<longrightarrow> process_char s 0x7F = Inr (False, s))
   \<and> (buffer s \<noteq> [] \<and> sends_left (chan s) \<noteq> Some 0 \<longrightarrow>
        process_char s 0x7F =
          Inr (False, s\<lparr>buffer := butlast (buffer s),
                         chan := (chan s)\<lparr>sent := sent (chan s) @ [[8, 32, 8]],
                                          sends_left := map_option (\<lambda>n. n - 1) (sends_left (chan s))\<rparr>\<rparr>))
   \<and> (buffer s = [] \<and> sends_left (chan s) = None \<longrightarrow>
        process_data s (utf8_decode_ignore [0x6C, 0x73, 0x78, 0x7F, 0x0D]) =
          Inr (s\<lparr>commands := commands s @ [lit ''ls''],
                 buffer := [],
                 chan := (chan s)\<lparr>sent := sent (chan s) @
                    [lit ''l'', lit ''s'', lit ''x'', [8, 32, 8]] @
                    (if cmd_ls (shell s) [] \<noteq> [] then [[13, 10] @ cmd_ls (shell s) [] @ [13, 10]] else []) @
                    [get_prompt (shell s)]\<rparr>\<rparr>)
        \<and> execute_command (shell s) (lit ''ls'') = Inr (Some (cmd_ls (shell s) []), shell s))"
proof (intro conjI impI)
  show "process_char s 0x7F = Inr (False, s)" if "buffer s = []"
    using that by (simp add: process_char_def)
  show "process_char s 0x7F =
          Inr (False, s\<lparr>buffer := butlast (buffer s),
                         chan := (chan s)\<lparr>sent := sent (chan s) @ [[8, 32, 8]],
                                          sends_left := map_option (\<lambda>n. n - 1) (sends_left (chan s))\<rparr>\<rparr>)"
    if "buffer s \<noteq> [] \<and> sends_left (chan s) \<noteq> Some 0"
    using that by (simp add: process_char_def session_send_def send_ok)
  show "execute_command (shell s) (lit ''ls'') = Inr (Some (cmd_ls (shell s) []), shell s)"
    by (rule execute_ls)
  assume h: "buffer s = [] \<and> sends_left (chan s) = None"
  have ex: "execute_command (shell s) [108, 115] = Inr (Some (cmd_ls (shell s) []), shell s)"
    using execute_ls [of "shell s"] by simp
  have st: "strip [108, 115] = [108, 115]"
    using strip_ls by simp
  show "process_data s (utf8_decode_ignore [0x6C, 0x73, 0x78, 0x7F, 0x0D]) =
          Inr (s\<lparr>commands := commands s @ [lit ''ls''],
                 buffer := [],
                 chan := (chan s)\<lparr>sent := sent (chan s) @
                    [lit ''l'', lit ''s'', lit ''x'', [8, 32, 8]] @
                    (if cmd_ls (shell s) [] \<noteq> [] then [[13, 10] @ cmd_ls (shell s) [] @ [13, 10]] else []) @
                    [get_prompt (shell s)]\<rparr>\<rparr>)"
    using h by (simp add: process_char_def session_send_def send_None ex st)
qed


theorem backspace_truncates_before_dispatch_witness:
  "process_data
     \<lparr>shell = FakeShell_init (lit ''root''),
      chan = \<lparr>sent = [], sends_left = None, active = True\<rparr>, commands = [], buffer = []\<rparr>
     (utf8_decode_ignore [0x6C, 0x73, 0x78, 0x7F, 0x0D]) =
   Inr \<lparr>shell = FakeShell_init (lit ''root''),
        chan = \<lparr>sent = [lit ''l'', lit ''s'', lit ''x'', [8, 32, 8],
                       [13, 10] @ lit ''documents  downloads  .bash_history  .ssh'' @ [13, 10],
                       lit ''root@ubuntu-server:/home/root$ ''],
                sends_left = None, active = True\<rparr>,
        commands = [lit ''ls''], buffer = []\<rparr>
   \<and> process_char
       \<lparr>shell = FakeShell_init (lit ''root''),
        chan = \<lparr>sent = [], sends_left = Some 1, active = True\<rparr>, commands = [], buffer = lit ''lsx''\<rparr>
       0x7F =
     Inr (False,
       \<lparr>shell = FakeShell_init (lit ''root''),
        chan = \<lparr>sent = [[8, 32, 8]], sends_left = Some 0, active = True\<rparr>,
        commands = [], buffer = lit ''ls''\<rparr>)
   \<and> process_char
       \<lparr>shell = FakeShell_init (lit ''root''),
        chan = \<lparr>sent = [], sends_left = Some 0, active = True\<rparr>, commands = [], buffer = []\<rparr>
       0x7F =
     Inr (False,
       \<lparr>shell = FakeShell_init (lit ''root''),
        chan = \<lparr>sent = [], sends_left = Some 0, active = True\<rparr>, commands = [], buffer = []\<rparr>)"
  using backspace_truncates_before_dispatch [of "\<lparr>shell = FakeShell_init (lit ''root''),
      chan = \<lparr>sent = [], sends_left = None, active = True\<rparr>, commands = [], buffer = []\<rparr>"]
    backspace_truncates_before_dispatch [of "\<lparr>shell = FakeShell_init (lit ''root''),
        chan = \<lparr>sent = [], sends_left = Some 1, active = True\<rparr>, commands = [], buffer = lit ''lsx''\<rparr>"]
    backspace_truncates_before_dispatch [of "\<lparr>shell = FakeShell_init (lit ''root''),
        chan = \<lparr>sent = [], sends_left = Some 0, active = True\<rparr>, commands = [], buffer = []\<rparr>"]
  by (simp add: cmd_ls_def get_prompt_def FakeShell_init_sel rstrip_def)

section \<open>Properties of the attack detector\<close>

lemma search_empty: "search pattern [] = (match pattern (None, []) \<noteq> [])"
  by (simp add: search_def)

lemma sql_empty: "filter (\<lambda>pattern. search pattern []) SQL_PATTERNS = []"
  by (simp add: SQL_PATTERNS_def search_empty read_def at_boundary_def Plus_def Opt_def quote_def)

lemma xss_empty: "filter (\<lambda>pattern. search pattern []) XSS_PATTERNS = []"
  by (simp add: XSS_PATTERNS_def search_empty read_def attrs_def)

lemma path_empty: "filter (\<lambda>pattern. search pattern []) PATH_TRAVERSAL_PATTERNS = []"
  by (simp add: PATH_TRAVERSAL_PATTERNS_def search_empty read_def)

lemma cmd_empty: "filter (\<lambda>pattern. search pattern []) COMMAND_INJECTION_PATTERNS = []"
  by (simp add: COMMAND_INJECTION_PATTERNS_def search_empty read_def)

text \<open>
  The matcher at work: a pattern is found regardless of case, and \<open>\b\<close> keeps \<open>or\<close>
  from matching inside \<open>for\<close>.
\<close>

lemmas match_defs = search_def read_def lower_def lower_char_def at_boundary_def is_word_def
  isspace_def Plus_def Opt_def quote_def attrs_def

lemma search_examples:
  "search (seq [lits ''<script'', attrs, lits ''>'']) (lower (lit ''<SCRIPT>''))"
  "search (alts [lits ''../'', seq [lits ''..'', Chr 92]]) (lit ''../'')"
  "search (seq [WordBoundary, lits ''or'', WordBoundary, Plus Space, Opt quote, lits ''1'', Opt quote,
          Star Space, lits ''='', Star Space, Opt quote, lits ''1'']) (lit ''or 1=1'')"
  "\<not> search (seq [WordBoundary, lits ''or'', WordBoundary, Plus Space, Opt quote, lits ''1'', Opt quote,
          Star Space, lits ''='', Star Space, Opt quote, lits ''1'']) (lit ''for 1=1'')"
  by (simp_all add: match_defs)

text \<open>
  C8. \<open>analyze_payload\<close> (the spec's \<open>classify\<close>) of the empty string answers not
  malicious, with no attack type and no detected pattern: none of the seventeen SQL
  injection, eighteen XSS, four path traversal and eight command injection patterns is
  found in the empty text, so each of the four detectors returns the empty list.
\<close>

theorem analyze_payload_empty:
  "analyze_payload [] = \<lparr>is_malicious = False, attack_types = [], patterns_detected = []\<rparr>
   \<and> filter (\<lambda>pattern. search pattern (lower [])) SQL_PATTERNS = []
   \<and> filter (\<lambda>pattern. search pattern (lower [])) XSS_PATTERNS = []
   \<and> filter (\<lambda>pattern. search pattern []) PATH_TRAVERSAL_PATTERNS = []
   \<and> filter (\<lambda>pattern. search pattern []) COMMAND_INJECTION_PATTERNS = []
   \<and> length SQL_PATTERNS = 17 \<and> length XSS_PATTERNS = 18
   \<and> length PATH_TRAVERSAL_PATTERNS = 4 \<and> length COMMAND_INJECTION_PATTERNS = 8
   \<and> detect_sql_injection [] = [] \<and> detect_xss [] = []
   \<and> detect_path_traversal [] = [] \<and> detect_command_injection [] = []"
proof -
  have lens: "length SQL_PATTERNS = 17 \<and> length XSS_PATTERNS = 18
      \<and> length PATH_TRAVERSAL_PATTERNS = 4 \<and> length COMMAND_INJECTION_PATTERNS = 8"
    by (simp add: SQL_PATTERNS_def XSS_PATTERNS_def PATH_TRAVERSAL_PATTERNS_def
        COMMAND_INJECTION_PATTERNS_def)
  have dets: "detect_sql_injection [] = [] \<and> detect_xss [] = []
      \<and> detect_path_traversal [] = [] \<and> detect_command_injection [] = []"
    by (simp add: detect_sql_injection_def detect_xss_def detect_path_traversal_def
        detect_command_injection_def lower_def sql_empty xss_empty path_empty cmd_empty)
  then have "analyze_payload [] = \<lparr>is_malicious = False, attack_types = [], patterns_detected = []\<rparr>"
    by (simp add: analyze_payload_def)
  with lens dets show ?thesis
    by (simp add: lower_def sql_empty xss_empty path_empty cmd_empty)
qed

end
